theory Spec2Isabelle
  imports Main
begin

section \<open>The webhook listing endpoint of the external API (v2)\<close>

text \<open>
  The development embeds \<^verbatim>\<open>packages/api/src/routers/external-api/v2/webhooks.ts\<close>:
  the function \<^verbatim>\<open>formatExternalWebhook\<close> and the handler of
  \<^verbatim>\<open>GET /api/v2/webhooks\<close>. The JavaScript values the two handle, the builtins
  \<^verbatim>\<open>JSON.stringify\<close> and \<^verbatim>\<open>JSON.parse\<close>, and the part of the zod validator
  that the schema of the endpoint uses are modelled first.
\<close>

subsection \<open>JavaScript values\<close>

text \<open>
  An ObjectId is represented by its hexadecimal rendering, the string that
  \<^verbatim>\<open>toString()\<close> and \<^verbatim>\<open>toJSON()\<close> of an ObjectId return. A Date is
  represented by the string that \<^verbatim>\<open>toISOString()\<close> returns for it.
\<close>

datatype ObjectId = ObjectId string

fun toString :: "ObjectId \<Rightarrow> string" where
  "toString (ObjectId hex) = hex"

datatype Date = Date string

fun toISOString :: "Date \<Rightarrow> string" where
  "toISOString (Date s) = s"

text \<open>
  The values that occur in a document and in parsed JSON. Numbers are the integers:
  every finite number is written and read back unchanged by the JSON builtins, and
  no path of a webhook is numeric. The properties of an object are kept in
  enumeration order.
\<close>

datatype jsval =
    JSUndefined
  | JSNull
  | JSBoolean bool
  | JSNumber int
  | JSString string
  | JSObjectId ObjectId
  | JSDate Date
  | JSArray "jsval list"
  | JSObject "(string \<times> jsval) list"

text \<open>
  JSON text is represented by the value it denotes (its abstract syntax): a string
  returned by \<^verbatim>\<open>JSON.stringify\<close> is a \<open>json\<close>.
\<close>

datatype json =
    JNull
  | JBool bool
  | JNum int
  | JStr string
  | JArr "json list"
  | JObj "(string \<times> json) list"

datatype js_error = SyntaxError | StorageError

text \<open>Property access \<^verbatim>\<open>data[key]\<close> and the test \<^verbatim>\<open>key in data\<close> on the
  properties of an object.\<close>

definition get_prop :: "(string \<times> jsval) list \<Rightarrow> string \<Rightarrow> jsval" where
  "get_prop ps k = (case map_of ps k of None \<Rightarrow> JSUndefined | Some v \<Rightarrow> v)"

definition has_key :: "(string \<times> 'a) list \<Rightarrow> string \<Rightarrow> bool" where
  "has_key ps k = (k \<in> set (map fst ps))"

fun keys :: "jsval \<Rightarrow> string list" where
  "keys (JSObject ps) = map fst ps"
| "keys _ = []"

fun js_get :: "jsval \<Rightarrow> string \<Rightarrow> jsval" where
  "js_get (JSObject ps) k = get_prop ps k"
| "js_get _ k = JSUndefined"

subsection \<open>JSON.stringify and JSON.parse\<close>

text \<open>
  \<open>serialize\<close> is SerializeJSONProperty: \<open>None\<close> stands for the result
  \<^verbatim>\<open>undefined\<close>. An ObjectId and a Date are replaced by what their
  \<^verbatim>\<open>toJSON()\<close> returns; a property whose value serializes to
  \<^verbatim>\<open>undefined\<close> is left out of an object, and an array element that does is
  written \<^verbatim>\<open>null\<close>.
\<close>

definition keep_defined :: "(string \<times> json option) list \<Rightarrow> (string \<times> json) list" where
  "keep_defined rs = List.map_filter (\<lambda>(k, r). map_option (Pair k) r) rs"

definition null_if_undefined :: "json option \<Rightarrow> json" where
  "null_if_undefined r = (case r of None \<Rightarrow> JNull | Some j \<Rightarrow> j)"

primrec serialize :: "jsval \<Rightarrow> json option" where
  "serialize JSUndefined = None"
| "serialize JSNull = Some JNull"
| "serialize (JSBoolean b) = Some (JBool b)"
| "serialize (JSNumber n) = Some (JNum n)"
| "serialize (JSString s) = Some (JStr s)"
| "serialize (JSObjectId i) = Some (JStr (toString i))"
| "serialize (JSDate d) = Some (JStr (toISOString d))"
| "serialize (JSArray xs) = Some (JArr (map null_if_undefined (map serialize xs)))"
| "serialize (JSObject ps) = Some (JObj (keep_defined (map (map_prod id serialize) ps)))"

definition JSON_stringify :: "jsval \<Rightarrow> json option" where
  "JSON_stringify v = serialize v"

primrec reviveJSON :: "json \<Rightarrow> jsval" where
  "reviveJSON JNull = JSNull"
| "reviveJSON (JBool b) = JSBoolean b"
| "reviveJSON (JNum n) = JSNumber n"
| "reviveJSON (JStr s) = JSString s"
| "reviveJSON (JArr xs) = JSArray (map reviveJSON xs)"
| "reviveJSON (JObj ps) = JSObject (map (map_prod id reviveJSON) ps)"

text \<open>\<^verbatim>\<open>JSON.parse\<close> throws a SyntaxError when it is handed \<^verbatim>\<open>undefined\<close>,
  which is not JSON text.\<close>

definition JSON_parse :: "json option \<Rightarrow> js_error + jsval" where
  "JSON_parse t = (case t of None \<Rightarrow> Inl SyntaxError | Some j \<Rightarrow> Inr (reviveJSON j))"

subsection \<open>The zod validator\<close>

text \<open>
  The part of zod that the schema of the endpoint is built from: strings, string
  literals, records, optional properties, objects and a discriminated union of
  objects. An object schema is in the default mode, which strips the keys its shape
  does not declare. An issue carries the path of the value it rejects.
\<close>

datatype ZodIssue =
    invalid_type "string list"
  | invalid_literal "string list"
  | invalid_union_discriminator "string list"

type_synonym ZodError = "ZodIssue list"

datatype ZodType =
    ZodString
  | ZodLiteral string
  | ZodRecord ZodType
  | ZodOptional ZodType

type_synonym ZodObject = "(string \<times> ZodType) list"

datatype ZodSchema = ZodDiscriminatedUnion string "ZodObject list"

datatype SafeParseResult = ParseSuccess jsval | ParseFailure ZodError

text \<open>
  \<open>mergeObject\<close> is zod's merge of the parsed properties of an object: the parse
  fails with every issue found when one property failed; otherwise a key is set in
  the result when its value is defined or the key was in the input.
\<close>

fun issues_of :: "(string \<times> bool \<times> (ZodError + jsval)) list \<Rightarrow> ZodError" where
  "issues_of [] = []"
| "issues_of ((k, alwaysSet, Inl is) # rest) = is @ issues_of rest"
| "issues_of ((k, alwaysSet, Inr v) # rest) = issues_of rest"

fun finalObject :: "(string \<times> bool \<times> (ZodError + jsval)) list \<Rightarrow> (string \<times> jsval) list" where
  "finalObject [] = []"
| "finalObject ((k, alwaysSet, Inl is) # rest) = finalObject rest"
| "finalObject ((k, alwaysSet, Inr v) # rest) =
     (if v \<noteq> JSUndefined \<or> alwaysSet then (k, v) # finalObject rest else finalObject rest)"

definition mergeObject :: "(string \<times> bool \<times> (ZodError + jsval)) list \<Rightarrow> ZodError + jsval" where
  "mergeObject pairs =
     (if issues_of pairs \<noteq> [] then Inl (issues_of pairs) else Inr (JSObject (finalObject pairs)))"

fun parseType :: "ZodType \<Rightarrow> string list \<Rightarrow> jsval \<Rightarrow> ZodError + jsval" where
  "parseType ZodString path v =
     (case v of JSString s \<Rightarrow> Inr v | _ \<Rightarrow> Inl [invalid_type path])"
| "parseType (ZodLiteral l) path v =
     (if v = JSString l then Inr v else Inl [invalid_literal path])"
| "parseType (ZodRecord t) path v =
     (case v of
        JSObject ps \<Rightarrow> mergeObject (map (\<lambda>(k, x). (k, True, parseType t (path @ [k]) x)) ps)
      | _ \<Rightarrow> Inl [invalid_type path])"
| "parseType (ZodOptional t) path v =
     (if v = JSUndefined then Inr JSUndefined else parseType t path v)"

definition parseObject :: "ZodObject \<Rightarrow> jsval \<Rightarrow> ZodError + jsval" where
  "parseObject shape v =
     (case v of
        JSObject ps \<Rightarrow>
          mergeObject (map (\<lambda>(k, t). (k, has_key ps k, parseType t [k] (get_prop ps k))) shape)
      | _ \<Rightarrow> Inl [invalid_type []])"

text \<open>The option of a discriminated union that a discriminator value selects is the
  first one whose shape declares that value as the literal of the discriminator key.\<close>

definition discriminatorValue :: "string \<Rightarrow> ZodObject \<Rightarrow> string option" where
  "discriminatorValue d shape =
     (case map_of shape d of Some (ZodLiteral l) \<Rightarrow> Some l | _ \<Rightarrow> None)"

definition selectOption :: "string \<Rightarrow> ZodObject list \<Rightarrow> jsval \<Rightarrow> ZodObject option" where
  "selectOption d options v =
     (case v of
        JSString s \<Rightarrow> find (\<lambda>shape. discriminatorValue d shape = Some s) options
      | _ \<Rightarrow> None)"

fun safeParse :: "ZodSchema \<Rightarrow> jsval \<Rightarrow> SafeParseResult" where
  "safeParse (ZodDiscriminatedUnion d options) v =
     (case v of
        JSObject ps \<Rightarrow>
          (case selectOption d options (get_prop ps d) of
             None \<Rightarrow> ParseFailure [invalid_union_discriminator [d]]
           | Some shape \<Rightarrow>
               (case parseObject shape v of
                  Inl is \<Rightarrow> ParseFailure is
                | Inr data \<Rightarrow> ParseSuccess data))
      | _ \<Rightarrow> ParseFailure [invalid_type []])"

subsection \<open>The schema of the external view\<close>

datatype WebhookService = Slack | IncidentIO | Generic

fun serviceValue :: "WebhookService \<Rightarrow> string" where
  "serviceValue Slack = ''slack''"
| "serviceValue IncidentIO = ''incidentio''"
| "serviceValue Generic = ''generic''"

text \<open>
  Modelled from the spec: \<^verbatim>\<open>externalWebhookSchema\<close> of \<^verbatim>\<open>@/utils/zod\<close> is not
  among the sources. It is the discriminated union on \<^verbatim>\<open>service\<close> of three
  object schemas; each requires \<^verbatim>\<open>id\<close>, \<^verbatim>\<open>name\<close>, \<^verbatim>\<open>service\<close>,
  \<^verbatim>\<open>createdAt\<close> and \<^verbatim>\<open>updatedAt\<close>, has the optional \<^verbatim>\<open>url\<close> and
  \<^verbatim>\<open>description\<close>, and only the Generic one declares the optional
  \<^verbatim>\<open>headers\<close> (a record of strings) and \<^verbatim>\<open>body\<close>. The OpenAPI comment of
  \<^verbatim>\<open>webhooks.ts\<close> lists the same properties, in the order used here.
\<close>

definition externalWebhookShape :: "WebhookService \<Rightarrow> ZodObject" where
  "externalWebhookShape svc =
     [(''id'', ZodString),
      (''name'', ZodString),
      (''service'', ZodLiteral (serviceValue svc)),
      (''url'', ZodOptional ZodString),
      (''description'', ZodOptional ZodString)]
     @ (if svc = Generic
        then [(''headers'', ZodOptional (ZodRecord ZodString)), (''body'', ZodOptional ZodString)]
        else [])
     @ [(''updatedAt'', ZodString),
        (''createdAt'', ZodString)]"

definition externalWebhookSchema :: ZodSchema where
  "externalWebhookSchema =
     ZodDiscriminatedUnion ''service''
       [externalWebhookShape Slack, externalWebhookShape IncidentIO, externalWebhookShape Generic]"

subsection \<open>Webhook documents\<close>

text \<open>
  Modelled from the spec: the model \<^verbatim>\<open>@/models/webhook\<close> is not among the sources.
  A document has the paths of the spec's WebhookRecord, each one set or not; \<open>doc_id\<close>
  is the path \<^verbatim>\<open>_id\<close>. \<^verbatim>\<open>toJSON\<close> returns a plain object with the paths that
  are set, a map flattened to an object; with \<^verbatim>\<open>getters: true\<close> it adds the value
  of the getter \<^verbatim>\<open>id\<close>, which is \<^verbatim>\<open>_id.toString()\<close>, or \<^verbatim>\<open>null\<close> when
  \<^verbatim>\<open>_id\<close> is not set.
\<close>

record WebhookDocument =
  doc_id :: "ObjectId option"
  team :: "ObjectId option"
  name :: "string option"
  service :: "string option"
  url :: "string option"
  description :: "string option"
  headers :: "(string \<times> string) list option"
  body :: "string option"
  createdAt :: "Date option"
  updatedAt :: "Date option"

definition path_entry :: "string \<Rightarrow> ('a \<Rightarrow> 'b) \<Rightarrow> 'a option \<Rightarrow> (string \<times> 'b) list" where
  "path_entry k f x = (case x of None \<Rightarrow> [] | Some a \<Rightarrow> [(k, f a)])"

definition flattenMap :: "(string \<times> string) list \<Rightarrow> jsval" where
  "flattenMap m = JSObject (map (map_prod id JSString) m)"

definition idGetter :: "WebhookDocument \<Rightarrow> jsval" where
  "idGetter w = (case doc_id w of None \<Rightarrow> JSNull | Some i \<Rightarrow> JSString (toString i))"

text \<open>
  Modelled from the spec: \<^verbatim>\<open>toJSON({ getters })\<close> of a webhook document. The paths
  come in the order of the record, the getter \<^verbatim>\<open>id\<close> last.
\<close>

definition toJSON :: "bool \<Rightarrow> WebhookDocument \<Rightarrow> jsval" where
  "toJSON getters w =
     JSObject
       (path_entry ''_id'' JSObjectId (doc_id w)
        @ path_entry ''team'' JSObjectId (team w)
        @ path_entry ''name'' JSString (name w)
        @ path_entry ''service'' JSString (service w)
        @ path_entry ''url'' JSString (url w)
        @ path_entry ''description'' JSString (description w)
        @ path_entry ''headers'' flattenMap (headers w)
        @ path_entry ''body'' JSString (body w)
        @ path_entry ''createdAt'' JSDate (createdAt w)
        @ path_entry ''updatedAt'' JSDate (updatedAt w)
        @ (if getters then [(''id'', idGetter w)] else []))"

subsection \<open>formatExternalWebhook\<close>

text \<open>The logger is the list of the entries written so far.\<close>

datatype LogEntry = LogError WebhookDocument ZodError string

type_synonym Logger = "LogEntry list"

definition logger_error :: "WebhookDocument \<Rightarrow> ZodError \<Rightarrow> string \<Rightarrow> Logger \<Rightarrow> Logger" where
  "logger_error webhook err msg lg = lg @ [LogError webhook err msg]"

text \<open>
  The function returns the external view, or \<^verbatim>\<open>undefined\<close> (\<open>JSUndefined\<close>) for
  a document that the schema rejects; \<open>Inl\<close> is an exception thrown.
\<close>

definition formatExternalWebhook :: "WebhookDocument \<Rightarrow> Logger \<Rightarrow> (js_error + jsval) \<times> Logger" where
  "formatExternalWebhook webhook lg =
     (let json = JSON_stringify (toJSON True webhook) in
      case JSON_parse json of
        Inl e \<Rightarrow> (Inl e, lg)
      | Inr parsed \<Rightarrow>
          (case safeParse externalWebhookSchema parsed of
             ParseSuccess data \<Rightarrow> (Inr data, lg)
           | ParseFailure err \<Rightarrow>
               (Inr JSUndefined,
                logger_error webhook err ''Failed to parse webhook using externalWebhookSchema:'' lg)))"

subsection \<open>The handler of GET /api/v2/webhooks\<close>

text \<open>
  The state the handler runs in: the collection of webhook documents, whether the
  storage answers, the queries issued so far, and the logger.
\<close>

record World =
  collection :: "WebhookDocument list"
  storage_up :: bool
  queries :: "string list"
  logger :: Logger

text \<open>
  Modelled from the spec: \<^verbatim>\<open>Webhook.find({ team: t })\<close> returns the documents
  whose team is \<open>t\<close>, in the order of the collection, or rejects when the storage
  fails.
\<close>

definition Webhook_find :: "string \<Rightarrow> World \<Rightarrow> (js_error + WebhookDocument list) \<times> World" where
  "Webhook_find t s =
     (let s' = s\<lparr>queries := queries s @ [t]\<rparr> in
      if storage_up s
      then (Inr (filter (\<lambda>w. team w = Some (ObjectId t)) (collection s)), s')
      else (Inl StorageError, s'))"

text \<open>\<^verbatim>\<open>Array.prototype.map\<close> with a callback that writes to the logger and may
  throw: the first exception ends the loop.\<close>

fun array_map ::
  "('a \<Rightarrow> Logger \<Rightarrow> (js_error + 'b) \<times> Logger) \<Rightarrow> 'a list \<Rightarrow> Logger \<Rightarrow> (js_error + 'b list) \<times> Logger" where
  "array_map f [] lg = (Inr [], lg)"
| "array_map f (x # xs) lg =
     (case f x lg of
        (Inl e, lg') \<Rightarrow> (Inl e, lg')
      | (Inr y, lg') \<Rightarrow>
          (case array_map f xs lg' of
             (Inl e, lg'') \<Rightarrow> (Inl e, lg'')
           | (Inr ys, lg'') \<Rightarrow> (Inr (y # ys), lg'')))"

record User =
  user_team :: "ObjectId option"

record Request =
  user :: "User option"

datatype Response = SendStatus nat | Json jsval

datatype Outcome = Responded Response | Next js_error

fun status :: "Response \<Rightarrow> nat" where
  "status (SendStatus code) = code"
| "status (Json b) = 200"

definition listWebhooks :: "Request \<Rightarrow> World \<Rightarrow> Outcome \<times> World" where
  "listWebhooks req s =
     (let teamId = (case user req of None \<Rightarrow> None | Some u \<Rightarrow> user_team u) in
      case teamId of
        None \<Rightarrow> (Responded (SendStatus 403), s)
      | Some tid \<Rightarrow>
          (case Webhook_find (toString tid) s of
             (Inl e, s') \<Rightarrow> (Next e, s')
           | (Inr webhooks, s') \<Rightarrow>
               (case array_map formatExternalWebhook webhooks (logger s') of
                  (Inl e, lg) \<Rightarrow> (Next e, s'\<lparr>logger := lg\<rparr>)
                | (Inr views, lg) \<Rightarrow>
                    (Responded
                       (Json (JSObject [(''data'', JSArray (filter (\<lambda>s. s \<noteq> JSUndefined) views))])),
                     s'\<lparr>logger := lg\<rparr>))))"

subsection \<open>Notions used in the statements\<close>

text \<open>The service values of the three variants of the schema.\<close>

definition recognized :: "string \<Rightarrow> bool" where
  "recognized s = (s \<in> set (map serviceValue [Slack, IncidentIO, Generic]))"

text \<open>A document misses a required field, or names a service that is none of the three.\<close>

definition missing_required :: "WebhookDocument \<Rightarrow> bool" where
  "missing_required w =
     (doc_id w = None \<or> name w = None \<or> service w = None \<or> createdAt w = None \<or> updatedAt w = None)"

definition unrecognized_service :: "WebhookDocument \<Rightarrow> bool" where
  "unrecognized_service w = (case service w of None \<Rightarrow> False | Some s \<Rightarrow> \<not> recognized s)"

definition valid :: "WebhookDocument \<Rightarrow> bool" where
  "valid w = (\<not> missing_required w \<and> \<not> unrecognized_service w)"

text \<open>The value that \<open>formatExternalWebhook\<close> returns for a document: the external
  view, or \<open>JSUndefined\<close>.\<close>

definition externalView :: "WebhookDocument \<Rightarrow> jsval" where
  "externalView w = (case fst (formatExternalWebhook w []) of Inl e \<Rightarrow> JSUndefined | Inr v \<Rightarrow> v)"

text \<open>The properties of the external view of a document of service \<open>svc\<close> whose
  required fields are \<open>i\<close>, \<open>n\<close>, \<open>c\<close> and \<open>u\<close>.\<close>

definition viewProps ::
  "ObjectId \<Rightarrow> string \<Rightarrow> WebhookService \<Rightarrow> Date \<Rightarrow> Date \<Rightarrow> WebhookDocument \<Rightarrow> (string \<times> jsval) list" where
  "viewProps i n svc c u w =
     [(''id'', JSString (toString i)), (''name'', JSString n), (''service'', JSString (serviceValue svc))]
     @ path_entry ''url'' JSString (url w)
     @ path_entry ''description'' JSString (description w)
     @ (if svc = Generic
        then path_entry ''headers'' flattenMap (headers w) @ path_entry ''body'' JSString (body w)
        else [])
     @ [(''updatedAt'', JSString (toISOString u)), (''createdAt'', JSString (toISOString c))]"

text \<open>The object that \<^verbatim>\<open>JSON.parse\<close> returns for the serialized document: every
  ObjectId and Date has become a string.\<close>

definition parsedDocument :: "WebhookDocument \<Rightarrow> (string \<times> jsval) list" where
  "parsedDocument w =
     path_entry ''_id'' (\<lambda>i. JSString (toString i)) (doc_id w)
     @ path_entry ''team'' (\<lambda>i. JSString (toString i)) (team w)
     @ path_entry ''name'' JSString (name w)
     @ path_entry ''service'' JSString (service w)
     @ path_entry ''url'' JSString (url w)
     @ path_entry ''description'' JSString (description w)
     @ path_entry ''headers'' flattenMap (headers w)
     @ path_entry ''body'' JSString (body w)
     @ path_entry ''createdAt'' (\<lambda>d. JSString (toISOString d)) (createdAt w)
     @ path_entry ''updatedAt'' (\<lambda>d. JSString (toISOString d)) (updatedAt w)
     @ [(''id'', idGetter w)]"

text \<open>The variant of the schema that a service value selects.\<close>

definition variantOf :: "string \<Rightarrow> ZodObject option" where
  "variantOf s =
     (case externalWebhookSchema of
        ZodDiscriminatedUnion d options \<Rightarrow> selectOption d options (JSString s))"

text \<open>The fields of the spec's WebhookRecord that a document has.\<close>

definition stored_fields :: "WebhookDocument \<Rightarrow> string list" where
  "stored_fields w =
     map fst (filter snd
       [(''id'', doc_id w \<noteq> None),
        (''team'', team w \<noteq> None),
        (''name'', name w \<noteq> None),
        (''service'', service w \<noteq> None),
        (''url'', url w \<noteq> None),
        (''description'', description w \<noteq> None),
        (''headers'', headers w \<noteq> None),
        (''body'', body w \<noteq> None),
        (''createdAt'', createdAt w \<noteq> None),
        (''updatedAt'', updatedAt w \<noteq> None)])"

text \<open>The values of JSON: no \<^verbatim>\<open>undefined\<close>, ObjectId or Date at any depth.\<close>

fun plain :: "jsval \<Rightarrow> bool" where
  "plain JSUndefined = False"
| "plain JSNull = True"
| "plain (JSBoolean b) = True"
| "plain (JSNumber n) = True"
| "plain (JSString s) = True"
| "plain (JSObjectId i) = False"
| "plain (JSDate d) = False"
| "plain (JSArray xs) = list_all plain xs"
| "plain (JSObject ps) = list_all (\<lambda>p. plain (snd p)) ps"

subsection \<open>Example documents\<close>

text \<open>A Slack webhook with headers and a body stored on it, and its external view.\<close>

definition exampleSlack :: WebhookDocument where
  "exampleSlack =
     \<lparr>doc_id = Some (ObjectId ''65a1''), team = Some (ObjectId ''aa''), name = Some ''T1'',
      service = Some ''slack'', url = Some ''https://hooks.slack.com/x'', description = None,
      headers = Some [(''X-Secret'', ''secret'')], body = Some ''hello'',
      createdAt = Some (Date ''2024-01-01T00:00:00.000Z''),
      updatedAt = Some (Date ''2024-01-02T00:00:00.000Z'')\<rparr>"

definition exampleSlackView :: jsval where
  "exampleSlackView =
     JSObject
       [(''id'', JSString ''65a1''), (''name'', JSString ''T1''), (''service'', JSString ''slack''),
        (''url'', JSString ''https://hooks.slack.com/x''),
        (''updatedAt'', JSString ''2024-01-02T00:00:00.000Z''),
        (''createdAt'', JSString ''2024-01-01T00:00:00.000Z'')]"

definition exampleGeneric :: WebhookDocument where
  "exampleGeneric =
     \<lparr>doc_id = Some (ObjectId ''65a2''), team = Some (ObjectId ''aa''), name = Some ''G1'',
      service = Some ''generic'', url = None, description = None,
      headers = Some [(''X'', ''Y'')], body = Some ''{{title}}'',
      createdAt = Some (Date ''2024-02-01T00:00:00.000Z''),
      updatedAt = Some (Date ''2024-02-02T00:00:00.000Z'')\<rparr>"

definition exampleGenericView :: jsval where
  "exampleGenericView =
     JSObject
       [(''id'', JSString ''65a2''), (''name'', JSString ''G1''), (''service'', JSString ''generic''),
        (''headers'', JSObject [(''X'', JSString ''Y'')]), (''body'', JSString ''{{title}}''),
        (''updatedAt'', JSString ''2024-02-02T00:00:00.000Z''),
        (''createdAt'', JSString ''2024-02-01T00:00:00.000Z'')]"

definition exampleNoName :: WebhookDocument where
  "exampleNoName = exampleSlack\<lparr>doc_id := Some (ObjectId ''65a3''), name := None\<rparr>"

definition exampleUnknownService :: WebhookDocument where
  "exampleUnknownService = exampleSlack\<lparr>doc_id := Some (ObjectId ''65a4''), service := Some ''teams''\<rparr>"

definition exampleOtherTeam :: WebhookDocument where
  "exampleOtherTeam = exampleSlack\<lparr>doc_id := Some (ObjectId ''65a5''), team := Some (ObjectId ''bb'')\<rparr>"

definition exampleWorld :: World where
  "exampleWorld =
     \<lparr>collection = [exampleSlack, exampleNoName, exampleOtherTeam, exampleUnknownService, exampleGeneric],
      storage_up = True, queries = [], logger = []\<rparr>"

definition exampleUser :: User where
  "exampleUser = \<lparr>user_team = Some (ObjectId ''aa'')\<rparr>"

definition exampleRequest :: Request where
  "exampleRequest = \<lparr>user = Some exampleUser\<rparr>"

text \<open>A Generic document that stores headers and a body but no name.\<close>

definition exampleGenericNoName :: WebhookDocument where
  "exampleGenericNoName = exampleGeneric\<lparr>name := None\<rparr>"

section \<open>Properties of the model\<close>

subsection \<open>Serializing and parsing a document\<close>

lemma keep_defined_Nil: "keep_defined [] = []"
  by (simp add: keep_defined_def List.map_filter_simps)

lemma keep_defined_append: "keep_defined (xs @ ys) = keep_defined xs @ keep_defined ys"
  by (simp add: keep_defined_def List.map_filter_def)

lemma keep_defined_Cons_Some: "keep_defined ((k, Some j) # rs) = (k, j) # keep_defined rs"
  by (simp add: keep_defined_def List.map_filter_simps)

lemma keep_defined_Cons_None: "keep_defined ((k, None) # rs) = keep_defined rs"
  by (simp add: keep_defined_def List.map_filter_simps)

lemma serialize_path_entry:
  assumes "\<And>a. serialize (f a) = Some (g a)"
  shows "keep_defined (map (map_prod id serialize) (path_entry k f x)) = path_entry k g x"
  using assms by (cases x) (simp_all add: path_entry_def keep_defined_Nil keep_defined_Cons_Some)

lemma revive_path_entry:
  "map (map_prod id reviveJSON) (path_entry k g x) = path_entry k (\<lambda>a. reviveJSON (g a)) x"
  by (cases x) (simp_all add: path_entry_def)

lemma serialize_flattenMap: "serialize (flattenMap m) = Some (JObj (map (map_prod id JStr) m))"
  by (induction m) (auto simp: flattenMap_def keep_defined_Nil keep_defined_Cons_Some)

lemma revive_flat: "reviveJSON (JObj (map (map_prod id JStr) m)) = flattenMap m"
  by (induction m) (auto simp: flattenMap_def)

lemma revive_flat_comp:
  "JSObject (map (map_prod id reviveJSON \<circ> map_prod id JStr) m) = flattenMap m"
  by (auto simp: flattenMap_def)

lemma serialize_idGetter: "serialize (idGetter w) = Some (case doc_id w of None \<Rightarrow> JNull | Some i \<Rightarrow> JStr (toString i))"
  by (simp add: idGetter_def split: option.splits)

lemma revive_idGetter: "reviveJSON (case doc_id w of None \<Rightarrow> JNull | Some i \<Rightarrow> JStr (toString i)) = idGetter w"
  by (simp add: idGetter_def split: option.splits)

lemma parse_stringify_toJSON:
  "JSON_parse (JSON_stringify (toJSON True w)) = Inr (JSObject (parsedDocument w))"
  by (simp add: JSON_parse_def JSON_stringify_def toJSON_def parsedDocument_def
      keep_defined_append revive_path_entry keep_defined_Cons_Some keep_defined_Nil
      serialize_path_entry [where g = "\<lambda>i. JStr (toString i)"]
      serialize_path_entry [where g = JStr]
      serialize_path_entry [where g = "\<lambda>d. JStr (toISOString d)"]
      serialize_path_entry [where g = "\<lambda>m. JObj (map (map_prod id JStr) m)"]
      serialize_flattenMap revive_flat revive_flat_comp serialize_idGetter revive_idGetter)

lemma get_prop_path_entry:
  "get_prop (path_entry k f x @ rest) k' =
     (if k' = k then (case x of None \<Rightarrow> get_prop rest k' | Some a \<Rightarrow> f a) else get_prop rest k')"
  by (cases x) (simp_all add: path_entry_def get_prop_def)

lemma has_key_path_entry:
  "has_key (path_entry k f x @ rest) k' = (k' = k \<and> x \<noteq> None \<or> has_key rest k')"
  by (cases x) (auto simp: path_entry_def has_key_def)

lemma get_prop_Cons: "get_prop ((k, v) # rest) k' = (if k' = k then v else get_prop rest k')"
  by (simp add: get_prop_def)

lemma get_prop_Nil: "get_prop [] k' = JSUndefined"
  by (simp add: get_prop_def)

lemma has_key_Cons: "has_key ((k, v) # rest) k' = (k' = k \<or> has_key rest k')"
  by (auto simp: has_key_def)

lemma has_key_Nil: "has_key [] k' = False"
  by (simp add: has_key_def)

lemmas object_simps = get_prop_path_entry has_key_path_entry get_prop_Cons get_prop_Nil
  has_key_Cons has_key_Nil

lemma parsed_service:
  "get_prop (parsedDocument w) ''service'' = (case service w of None \<Rightarrow> JSUndefined | Some s \<Rightarrow> JSString s)"
  by (simp add: parsedDocument_def object_simps split: option.split)

lemma parsed_id: "get_prop (parsedDocument w) ''id'' = idGetter w"
  by (simp add: parsedDocument_def object_simps split: option.split)

lemma parsed_name:
  "get_prop (parsedDocument w) ''name'' = (case name w of None \<Rightarrow> JSUndefined | Some s \<Rightarrow> JSString s)"
  by (simp add: parsedDocument_def object_simps split: option.split)

lemma parsed_url:
  "get_prop (parsedDocument w) ''url'' = (case url w of None \<Rightarrow> JSUndefined | Some s \<Rightarrow> JSString s)"
  "has_key (parsedDocument w) ''url'' = (url w \<noteq> None)"
  by (simp_all add: parsedDocument_def object_simps split: option.split)

lemma parsed_description:
  "get_prop (parsedDocument w) ''description'' = (case description w of None \<Rightarrow> JSUndefined | Some s \<Rightarrow> JSString s)"
  "has_key (parsedDocument w) ''description'' = (description w \<noteq> None)"
  by (simp_all add: parsedDocument_def object_simps split: option.split)

lemma parsed_headers:
  "get_prop (parsedDocument w) ''headers'' = (case headers w of None \<Rightarrow> JSUndefined | Some m \<Rightarrow> flattenMap m)"
  "has_key (parsedDocument w) ''headers'' = (headers w \<noteq> None)"
  by (simp_all add: parsedDocument_def object_simps split: option.split)

lemma parsed_body:
  "get_prop (parsedDocument w) ''body'' = (case body w of None \<Rightarrow> JSUndefined | Some s \<Rightarrow> JSString s)"
  "has_key (parsedDocument w) ''body'' = (body w \<noteq> None)"
  by (simp_all add: parsedDocument_def object_simps split: option.split)

lemma parsed_createdAt:
  "get_prop (parsedDocument w) ''createdAt'' = (case createdAt w of None \<Rightarrow> JSUndefined | Some d \<Rightarrow> JSString (toISOString d))"
  by (simp add: parsedDocument_def object_simps split: option.split)

lemma parsed_updatedAt:
  "get_prop (parsedDocument w) ''updatedAt'' = (case updatedAt w of None \<Rightarrow> JSUndefined | Some d \<Rightarrow> JSString (toISOString d))"
  by (simp add: parsedDocument_def object_simps split: option.split)

lemmas parsed_simps = parsed_service parsed_id parsed_name parsed_url parsed_description
  parsed_headers parsed_body parsed_createdAt parsed_updatedAt

lemma selectOption_service:
  "selectOption ''service''
     [externalWebhookShape Slack, externalWebhookShape IncidentIO, externalWebhookShape Generic]
     (JSString (serviceValue svc)) = Some (externalWebhookShape svc)"
  by (cases svc) (simp_all add: selectOption_def discriminatorValue_def externalWebhookShape_def)

lemma issues_of_strings:
  "issues_of (map (\<lambda>(k, x). (k, True, parseType ZodString (p @ [k]) x)) (map (map_prod id JSString) m)) = []"
  by (induction m) auto

lemma finalObject_strings:
  "finalObject (map (\<lambda>(k, x). (k, True, parseType ZodString (p @ [k]) x)) (map (map_prod id JSString) m))
     = map (map_prod id JSString) m"
  by (induction m) auto

lemma parseType_headers:
  "parseType (ZodRecord ZodString) p (flattenMap m) = Inr (flattenMap m)"
  by (simp add: flattenMap_def mergeObject_def issues_of_strings finalObject_strings del: parseType.simps(1) map_map)

subsection \<open>The result of formatExternalWebhook\<close>

lemma format_valid:
  assumes "doc_id w = Some i" "name w = Some n" "service w = Some (serviceValue svc)"
    "createdAt w = Some c" "updatedAt w = Some u"
  shows "formatExternalWebhook w lg =
    (Inr (JSObject (viewProps i n svc c u w)), lg)"
proof -
  have sel: "selectOption ''service''
     [externalWebhookShape Slack, externalWebhookShape IncidentIO, externalWebhookShape Generic]
     (get_prop (parsedDocument w) ''service'') = Some (externalWebhookShape svc)"
    using assms(3) by (simp add: parsed_service selectOption_service)
  have po: "parseObject (externalWebhookShape svc) (JSObject (parsedDocument w)) =
    Inr (JSObject (viewProps i n svc c u w))"
    using assms
    by (simp add: parseObject_def externalWebhookShape_def parsed_simps idGetter_def
        mergeObject_def path_entry_def parseType_headers viewProps_def split: option.split
        del: parseType.simps(3))
  show ?thesis
    by (simp add: formatExternalWebhook_def parse_stringify_toJSON externalWebhookSchema_def sel po)
qed

lemma recognized_iff: "recognized s = (\<exists>svc. s = serviceValue svc)"
proof
  assume "recognized s"
  then consider "s = serviceValue Slack" | "s = serviceValue IncidentIO" | "s = serviceValue Generic"
    by (auto simp: recognized_def)
  then show "\<exists>svc. s = serviceValue svc" by cases blast+
next
  assume "\<exists>svc. s = serviceValue svc"
  then obtain svc where "s = serviceValue svc" ..
  then show "recognized s" by (cases svc) (simp_all add: recognized_def)
qed

lemma discriminatorValue_shape:
  "discriminatorValue ''service'' (externalWebhookShape svc) = Some (serviceValue svc)"
  by (simp add: discriminatorValue_def externalWebhookShape_def)

lemma selectOption_Some:
  assumes "selectOption ''service''
     [externalWebhookShape Slack, externalWebhookShape IncidentIO, externalWebhookShape Generic] v
     = Some shape"
  shows "\<exists>svc. v = JSString (serviceValue svc) \<and> shape = externalWebhookShape svc"
proof (cases v)
  case (JSString s)
  with assms show ?thesis
    by (auto simp: selectOption_def discriminatorValue_shape split: if_splits
        intro: exI [of _ Slack] exI [of _ IncidentIO] exI [of _ Generic])
qed (use assms in \<open>simp_all add: selectOption_def\<close>)

lemma issues_of_Nil_mem:
  "issues_of pairs = [] \<Longrightarrow> (k, a, Inl is) \<in> set pairs \<Longrightarrow> is = []"
  by (induction pairs rule: issues_of.induct) auto

lemma parseType_Inl_nonempty: "parseType t p v = Inl errs \<Longrightarrow> errs \<noteq> []"
proof (induction t arbitrary: p v errs)
  case (ZodRecord t)
  then show ?case
    by (cases v) (auto simp: mergeObject_def split: if_splits)
qed (auto split: jsval.splits if_splits)

lemma parseObject_Inr_field:
  assumes "parseObject shape (JSObject ps) = Inr d" "(k, t) \<in> set shape"
  shows "\<exists>v. parseType t [k] (get_prop ps k) = Inr v"
proof (cases "parseType t [k] (get_prop ps k)")
  case (Inl errs)
  let ?pairs = "map (\<lambda>(k, t). (k, has_key ps k, parseType t [k] (get_prop ps k))) shape"
  from assms(1) have "issues_of ?pairs = []"
    by (simp add: parseObject_def mergeObject_def split: if_splits)
  moreover from assms(2) Inl have "(k, has_key ps k, Inl errs) \<in> set ?pairs"
    by force
  ultimately have "errs = []" by (rule issues_of_Nil_mem)
  with Inl show ?thesis using parseType_Inl_nonempty by blast
next
  case (Inr v)
  then show ?thesis by blast
qed

lemma required_in_shape:
  "(''id'', ZodString) \<in> set (externalWebhookShape svc)"
  "(''name'', ZodString) \<in> set (externalWebhookShape svc)"
  "(''createdAt'', ZodString) \<in> set (externalWebhookShape svc)"
  "(''updatedAt'', ZodString) \<in> set (externalWebhookShape svc)"
  by (simp_all add: externalWebhookShape_def)

lemma parseObject_Inr_required:
  assumes "parseObject (externalWebhookShape svc) (JSObject (parsedDocument w)) = Inr d"
  shows "doc_id w \<noteq> None \<and> name w \<noteq> None \<and> createdAt w \<noteq> None \<and> updatedAt w \<noteq> None"
proof -
  have "\<exists>v. parseType ZodString [''id''] (get_prop (parsedDocument w) ''id'') = Inr v"
    using assms required_in_shape(1) by (rule parseObject_Inr_field)
  then have 1: "doc_id w \<noteq> None"
    by (auto simp: parsed_id idGetter_def split: option.splits)
  have "\<exists>v. parseType ZodString [''name''] (get_prop (parsedDocument w) ''name'') = Inr v"
    using assms required_in_shape(2) by (rule parseObject_Inr_field)
  then have 2: "name w \<noteq> None"
    by (auto simp: parsed_name split: option.splits)
  have "\<exists>v. parseType ZodString [''createdAt''] (get_prop (parsedDocument w) ''createdAt'') = Inr v"
    using assms required_in_shape(3) by (rule parseObject_Inr_field)
  then have 3: "createdAt w \<noteq> None"
    by (auto simp: parsed_createdAt split: option.splits)
  have "\<exists>v. parseType ZodString [''updatedAt''] (get_prop (parsedDocument w) ''updatedAt'') = Inr v"
    using assms required_in_shape(4) by (rule parseObject_Inr_field)
  then have 4: "updatedAt w \<noteq> None"
    by (auto simp: parsed_updatedAt split: option.splits)
  from 1 2 3 4 show ?thesis by simp
qed

lemma safeParse_success_valid:
  assumes "safeParse externalWebhookSchema (JSObject (parsedDocument w)) = ParseSuccess d"
  shows "valid w"
proof -
  from assms obtain shape where
    sel: "selectOption ''service''
      [externalWebhookShape Slack, externalWebhookShape IncidentIO, externalWebhookShape Generic]
      (get_prop (parsedDocument w) ''service'') = Some shape"
    and po: "parseObject shape (JSObject (parsedDocument w)) = Inr d"
    by (auto simp: externalWebhookSchema_def split: option.splits sum.splits)
  from sel obtain svc where
    v: "get_prop (parsedDocument w) ''service'' = JSString (serviceValue svc)"
    and shape: "shape = externalWebhookShape svc"
    using selectOption_Some by blast
  from v have "service w = Some (serviceValue svc)"
    by (auto simp: parsed_service split: option.splits)
  moreover from po shape
  have "doc_id w \<noteq> None \<and> name w \<noteq> None \<and> createdAt w \<noteq> None \<and> updatedAt w \<noteq> None"
    using parseObject_Inr_required by simp
  ultimately show ?thesis
    by (auto simp: valid_def missing_required_def unrecognized_service_def recognized_iff)
qed

lemma format_invalid:
  assumes "\<not> valid w"
  shows "\<exists>err. formatExternalWebhook w lg =
    (Inr JSUndefined, lg @ [LogError w err ''Failed to parse webhook using externalWebhookSchema:''])"
proof (cases "safeParse externalWebhookSchema (JSObject (parsedDocument w))")
  case (ParseSuccess d)
  with assms show ?thesis using safeParse_success_valid by blast
next
  case (ParseFailure err)
  then show ?thesis
    by (simp add: formatExternalWebhook_def parse_stringify_toJSON logger_error_def)
qed

lemma valid_fields:
  assumes "valid w"
  obtains i n svc c u where "doc_id w = Some i" "name w = Some n" "service w = Some (serviceValue svc)"
    "createdAt w = Some c" "updatedAt w = Some u"
  using assms
  by (auto simp: valid_def missing_required_def unrecognized_service_def recognized_iff)

lemma format_fst: "fst (formatExternalWebhook w lg) = Inr (externalView w)"
proof (cases "valid w")
  case True
  then obtain i n svc c u where "doc_id w = Some i" "name w = Some n"
    "service w = Some (serviceValue svc)" "createdAt w = Some c" "updatedAt w = Some u"
    by (rule valid_fields)
  then show ?thesis
    by (simp add: externalView_def format_valid [where i = i and n = n and svc = svc and c = c and u = u])
next
  case False
  from format_invalid [OF False, of lg] format_invalid [OF False, of "[]"]
  show ?thesis by (auto simp: externalView_def)
qed

lemma externalView_undefined_iff: "externalView w = JSUndefined \<longleftrightarrow> \<not> valid w"
proof (cases "valid w")
  case True
  then obtain i n svc c u where "doc_id w = Some i" "name w = Some n"
    "service w = Some (serviceValue svc)" "createdAt w = Some c" "updatedAt w = Some u"
    by (rule valid_fields)
  then have "externalView w \<noteq> JSUndefined"
    by (simp add: externalView_def format_valid [where i = i and n = n and svc = svc and c = c and u = u])
  with True show ?thesis by simp
next
  case False
  from format_invalid [OF False, of "[]"]
  show ?thesis using False by (auto simp: externalView_def)
qed

lemma format_eq: "formatExternalWebhook w lg = (Inr (externalView w), snd (formatExternalWebhook w lg))"
  using format_fst [of w lg] by (cases "formatExternalWebhook w lg") simp

lemma array_map_format:
  "fst (array_map formatExternalWebhook ws lg) = Inr (map externalView ws)"
proof (induction ws arbitrary: lg)
  case Nil
  show ?case by simp
next
  case (Cons w ws)
  obtain lg' where f: "formatExternalWebhook w lg = (Inr (externalView w), lg')"
    using format_eq by blast
  obtain lg'' where "array_map formatExternalWebhook ws lg' = (Inr (map externalView ws), lg'')"
    using Cons.IH [of lg'] by (cases "array_map formatExternalWebhook ws lg'") simp
  with f show ?case by simp
qed

lemma ObjectId_toString: "ObjectId (toString i) = i"
  by (cases i) simp

lemma Webhook_find_result:
  "fst (Webhook_find (toString tid) s) =
     (if storage_up s then Inr (filter (\<lambda>w. team w = Some tid) (collection s)) else Inl StorageError)"
  by (simp add: Webhook_find_def Let_def ObjectId_toString)

lemma listWebhooks_data:
  assumes "user req = Some u" "user_team u = Some tid" "Webhook_find (toString tid) s = (Inr ws, s')"
  shows "fst (listWebhooks req s) =
    Responded (Json (JSObject [(''data'', JSArray (filter (\<lambda>v. v \<noteq> JSUndefined) (map externalView ws)))]))"
proof -
  obtain lg where "array_map formatExternalWebhook ws (logger s') = (Inr (map externalView ws), lg)"
    using array_map_format [of ws "logger s'"]
    by (cases "array_map formatExternalWebhook ws (logger s')") simp
  with assms show ?thesis
    by (simp add: listWebhooks_def)
qed

lemma filter_defined_views:
  "filter (\<lambda>v. v \<noteq> JSUndefined) (map externalView ws) = map externalView (filter valid ws)"
  by (induction ws) (simp_all add: externalView_undefined_iff)

subsection \<open>The external view of a document\<close>

lemma externalView_valid:
  assumes "doc_id w = Some i" "name w = Some n" "service w = Some (serviceValue svc)"
    "createdAt w = Some c" "updatedAt w = Some u"
  shows "externalView w =
    JSObject (viewProps i n svc c u w)"
  using assms
  by (simp add: externalView_def format_valid [where i = i and n = n and svc = svc and c = c and u = u])

lemma returned_view: "formatExternalWebhook w lg = (Inr v, lg') \<Longrightarrow> v = externalView w"
  using format_fst [of w lg] by simp

lemma externalView_invalid: "\<not> valid w \<Longrightarrow> externalView w = JSUndefined"
  by (simp add: externalView_undefined_iff)

lemma fst_path_entry: "map fst (path_entry k f x) = (if x = None then [] else [k])"
  by (cases x) (simp_all add: path_entry_def)

lemma serviceValue_inj: "serviceValue a = serviceValue b \<Longrightarrow> a = b"
  by (cases a; cases b) simp_all

lemma keys_externalView_not_Generic:
  assumes "service w = Some (serviceValue svc)" "svc \<noteq> Generic"
  shows "''headers'' \<notin> set (keys (externalView w)) \<and> ''body'' \<notin> set (keys (externalView w))"
proof (cases "valid w")
  case True
  then obtain i n svc' c u where f: "doc_id w = Some i" "name w = Some n"
    "service w = Some (serviceValue svc')" "createdAt w = Some c" "updatedAt w = Some u"
    by (rule valid_fields)
  with assms have "svc' \<noteq> Generic" by (auto dest: serviceValue_inj)
  then show ?thesis
    by (simp add: externalView_valid [OF f] viewProps_def fst_path_entry)
next
  case False
  then show ?thesis by (simp add: externalView_invalid)
qed

lemma view_cases:
  assumes "formatExternalWebhook w lg = (Inr v, lg')" "v \<noteq> JSUndefined"
  obtains i n svc c u where "doc_id w = Some i" "name w = Some n"
    "service w = Some (serviceValue svc)" "createdAt w = Some c" "updatedAt w = Some u"
    "v = JSObject (viewProps i n svc c u w)"
proof -
  from assms(1) have v: "v = externalView w" by (rule returned_view)
  with assms(2) have "valid w" by (simp add: externalView_undefined_iff)
  then obtain i n svc c u where f: "doc_id w = Some i" "name w = Some n"
    "service w = Some (serviceValue svc)" "createdAt w = Some c" "updatedAt w = Some u"
    by (rule valid_fields)
  from that [OF f] v externalView_valid [OF f] show thesis by simp
qed

lemma variantOf_serviceValue: "variantOf (serviceValue svc) = Some (externalWebhookShape svc)"
  by (simp add: variantOf_def externalWebhookSchema_def selectOption_service)

lemma keys_Undefined: "k \<in> set (keys v) \<Longrightarrow> v \<noteq> JSUndefined"
  by auto

lemma get_prop_in: "k \<in> set (map fst ps) \<Longrightarrow> get_prop ps k \<in> snd ` set ps"
  by (induction ps) (auto simp: get_prop_def)

lemma keys_viewProps:
  "k \<in> set (map fst (viewProps i n svc c u w)) \<longleftrightarrow>
     k = ''id'' \<or> k = ''name'' \<or> k = ''service''
     \<or> (k = ''url'' \<and> url w \<noteq> None)
     \<or> (k = ''description'' \<and> description w \<noteq> None)
     \<or> (k = ''headers'' \<and> svc = Generic \<and> headers w \<noteq> None)
     \<or> (k = ''body'' \<and> svc = Generic \<and> body w \<noteq> None)
     \<or> k = ''updatedAt'' \<or> k = ''createdAt''"
  by (cases "svc = Generic") (auto simp: viewProps_def fst_path_entry)

lemma keys_shape:
  "k \<in> set (map fst (externalWebhookShape svc)) \<longleftrightarrow>
     k = ''id'' \<or> k = ''name'' \<or> k = ''service'' \<or> k = ''url'' \<or> k = ''description''
     \<or> (k = ''headers'' \<and> svc = Generic) \<or> (k = ''body'' \<and> svc = Generic)
     \<or> k = ''updatedAt'' \<or> k = ''createdAt''"
  by (cases "svc = Generic") (auto simp: externalWebhookShape_def)

lemma keys_stored:
  "k \<in> set (stored_fields w) \<longleftrightarrow>
     (k = ''id'' \<and> doc_id w \<noteq> None) \<or> (k = ''team'' \<and> team w \<noteq> None)
     \<or> (k = ''name'' \<and> name w \<noteq> None) \<or> (k = ''service'' \<and> service w \<noteq> None)
     \<or> (k = ''url'' \<and> url w \<noteq> None) \<or> (k = ''description'' \<and> description w \<noteq> None)
     \<or> (k = ''headers'' \<and> headers w \<noteq> None) \<or> (k = ''body'' \<and> body w \<noteq> None)
     \<or> (k = ''createdAt'' \<and> createdAt w \<noteq> None) \<or> (k = ''updatedAt'' \<and> updatedAt w \<noteq> None)"
  by (auto simp: stored_fields_def)

lemma is_value_path_entry:
  "(\<And>a. P (f a)) \<Longrightarrow> \<forall>x \<in> snd ` set (path_entry k f y). P x"
  by (cases y) (simp_all add: path_entry_def)

lemma values_viewProps:
  "\<forall>x \<in> snd ` set (viewProps i n svc c u w). x \<noteq> JSNull \<and> x \<noteq> JSUndefined"
proof -
  let ?P = "\<lambda>x. x \<noteq> JSNull \<and> x \<noteq> JSUndefined"
  have s: "\<forall>x \<in> snd ` set (path_entry k JSString y). ?P x" for k y
    by (rule is_value_path_entry) simp
  have m: "\<forall>x \<in> snd ` set (path_entry k flattenMap y). ?P x" for k y
    by (rule is_value_path_entry) (simp add: flattenMap_def)
  show ?thesis
    using s [of "''url''" "url w"] s [of "''description''" "description w"]
      s [of "''body''" "body w"] m [of "''headers''" "headers w"]
    by (cases "svc = Generic") (auto simp: viewProps_def)
qed

lemma array_roundtrip:
  "(\<forall>x \<in> set xs. \<exists>j. serialize x = Some j \<and> reviveJSON j = x) \<Longrightarrow>
     map reviveJSON (map null_if_undefined (map serialize xs)) = xs"
  by (induction xs) (auto simp: null_if_undefined_def)

lemma object_roundtrip:
  "(\<forall>p \<in> set ps. \<exists>j. serialize (snd p) = Some j \<and> reviveJSON j = snd p) \<Longrightarrow>
     map (map_prod id reviveJSON) (keep_defined (map (map_prod id serialize) ps)) = ps"
proof (induction ps)
  case Nil
  show ?case by (simp add: keep_defined_Nil)
next
  case (Cons p ps)
  obtain k x where p: "p = (k, x)" by (cases p)
  from Cons.prems p obtain j where j: "serialize x = Some j" "reviveJSON j = x" by auto
  from Cons.prems have "\<forall>p \<in> set ps. \<exists>j. serialize (snd p) = Some j \<and> reviveJSON j = snd p"
    by simp
  then have "map (map_prod id reviveJSON) (keep_defined (map (map_prod id serialize) ps)) = ps"
    by (rule Cons.IH)
  with p j show ?case by (simp add: keep_defined_Cons_Some id_def)
qed

lemma plain_roundtrip: "plain v \<Longrightarrow> \<exists>j. serialize v = Some j \<and> reviveJSON j = v"
proof (induction v)
  case (JSArray xs)
  then have "\<forall>x \<in> set xs. \<exists>j. serialize x = Some j \<and> reviveJSON j = x"
    by (simp add: list_all_iff)
  then show ?case by (simp add: array_roundtrip del: map_map)
next
  case (JSObject ps)
  have "\<forall>p \<in> set ps. \<exists>j. serialize (snd p) = Some j \<and> reviveJSON j = snd p"
  proof
    fix p assume p: "p \<in> set ps"
    obtain k x where kx: "p = (k, x)" by (cases p)
    from JSObject.prems p kx have "plain x" by (auto simp: list_all_iff)
    with JSObject.IH [of p x] p kx show "\<exists>j. serialize (snd p) = Some j \<and> reviveJSON j = snd p"
      by simp
  qed
  then show ?case by (simp add: object_roundtrip)
qed simp_all

lemma parse_stringify_plain: "plain v \<Longrightarrow> JSON_parse (JSON_stringify v) = Inr v"
  using plain_roundtrip [of v] by (auto simp: JSON_parse_def JSON_stringify_def)

lemma plain_path_entry: "(\<And>a. plain (f a)) \<Longrightarrow> list_all (\<lambda>p. plain (snd p)) (path_entry k f y)"
  by (cases y) (simp_all add: path_entry_def)

lemma plain_flattenMap: "plain (flattenMap m)"
  by (induction m) (simp_all add: flattenMap_def)

lemma plain_viewProps: "plain (JSObject (viewProps i n svc c u w))"
  by (simp add: viewProps_def plain_path_entry plain_flattenMap)

lemma viewProps_id: "get_prop (viewProps i n svc c u w) ''id'' = JSString (toString i)"
  by (simp add: viewProps_def get_prop_Cons)

lemma viewProps_headers:
  "get_prop (viewProps i n Generic c u w) ''headers'' =
     (case headers w of None \<Rightarrow> JSUndefined | Some m \<Rightarrow> flattenMap m)"
  by (simp add: viewProps_def object_simps split: option.split)

lemma viewProps_body:
  "get_prop (viewProps i n Generic c u w) ''body'' =
     (case body w of None \<Rightarrow> JSUndefined | Some b \<Rightarrow> JSString b)"
  by (simp add: viewProps_def object_simps split: option.split)

lemma viewProps_createdAt:
  "get_prop (viewProps i n svc c u w) ''createdAt'' = JSString (toISOString c)"
  by (cases "svc = Generic") (simp_all add: viewProps_def object_simps split: option.split)

lemma viewProps_updatedAt:
  "get_prop (viewProps i n svc c u w) ''updatedAt'' = JSString (toISOString u)"
  by (cases "svc = Generic") (simp_all add: viewProps_def object_simps split: option.split)

lemma valid_iff: "valid w \<longleftrightarrow> \<not> (missing_required w \<or> unrecognized_service w)"
  by (simp add: valid_def)

lemma valid_fun: "valid = (\<lambda>w. \<not> (missing_required w \<or> unrecognized_service w))"
  by (rule ext) (simp add: valid_def)

lemma defined_views_length:
  "length (map externalView (filter valid ws)) + length (filter (\<lambda>w. \<not> valid w) ws) = length ws"
  by (simp add: sum_length_filter_compl)

lemma externalView_id:
  assumes "valid w"
  shows "\<exists>i. doc_id w = Some i \<and> js_get (externalView w) ''id'' = JSString (toString i)"
proof -
  from assms obtain i n svc c u where f: "doc_id w = Some i" "name w = Some n"
    "service w = Some (serviceValue svc)" "createdAt w = Some c" "updatedAt w = Some u"
    by (rule valid_fields)
  from externalView_valid [OF f] f(1) show ?thesis
    by (simp add: viewProps_id)
qed

lemma format_snd: "\<exists>es. snd (formatExternalWebhook w lg) = lg @ es"
proof (cases "valid w")
  case True
  then obtain i n svc c u where f: "doc_id w = Some i" "name w = Some n"
    "service w = Some (serviceValue svc)" "createdAt w = Some c" "updatedAt w = Some u"
    by (rule valid_fields)
  from format_valid [OF f, of lg] show ?thesis by simp
next
  case False
  from format_invalid [OF False, of lg] show ?thesis by auto
qed

lemma listWebhooks_no_team:
  assumes "user req = None \<or> (\<exists>usr. user req = Some usr \<and> user_team usr = None)"
  shows "listWebhooks req s = (Responded (SendStatus 403), s)"
  using assms by (auto simp: listWebhooks_def)

lemma toString_inj: "toString i = toString j \<Longrightarrow> i = j"
  by (cases i; cases j) simp

subsection \<open>Stripping, for every schema\<close>

text \<open>Whatever the options of a discriminated union declare, the parsed object has
  only keys that the selected option declares.\<close>

lemma finalObject_keys: "set (map fst (finalObject pairs)) \<subseteq> set (map fst pairs)"
  by (induction pairs rule: finalObject.induct) auto

lemma parseObject_keys:
  assumes "parseObject shape v = Inr data"
  shows "set (keys data) \<subseteq> set (map fst shape)"
proof (cases v)
  case (JSObject ps)
  let ?pairs = "map (\<lambda>(k, t). (k, has_key ps k, parseType t [k] (get_prop ps k))) shape"
  from assms JSObject have "data = JSObject (finalObject ?pairs)"
    by (simp add: parseObject_def mergeObject_def split: if_splits)
  moreover have "map fst ?pairs = map fst shape"
    by (induction shape) auto
  ultimately show ?thesis
    using finalObject_keys [of ?pairs] by simp
qed (use assms in \<open>simp_all add: parseObject_def\<close>)

lemma safeParse_strips_undeclared_keys:
  assumes "safeParse (ZodDiscriminatedUnion d options) v = ParseSuccess data"
  shows "\<exists>shape. selectOption d options (js_get v d) = Some shape
           \<and> set (keys data) \<subseteq> set (map fst shape)"
proof (cases v)
  case (JSObject ps)
  with assms obtain shape where "selectOption d options (get_prop ps d) = Some shape"
    and "parseObject shape v = Inr data"
    by (auto split: option.splits sum.splits)
  with JSObject show ?thesis
    using parseObject_keys by auto
qed (use assms in simp_all)

lemma valid_Generic:
  assumes "service w = Some (serviceValue Generic)" and "\<not> missing_required w"
  shows "valid w"
  using assms by (simp add: valid_def unrecognized_service_def recognized_def)

section \<open>The claims\<close>

text \<open>
  C1. For a document whose service is Slack or IncidentIO, the value that
  \<open>formatExternalWebhook\<close> returns has neither the key \<^verbatim>\<open>headers\<close> nor the key
  \<^verbatim>\<open>body\<close>, whatever \<open>headers\<close> and \<open>body\<close> the document stores.
\<close>

theorem slack_incidentio_view_hides_headers_and_body:
  assumes "service w = Some (serviceValue Slack) \<or> service w = Some (serviceValue IncidentIO)"
    and "formatExternalWebhook w lg = (Inr v, lg')"
  shows "''headers'' \<notin> set (keys v) \<and> ''body'' \<notin> set (keys v)"
proof -
  from assms(2) have v: "v = externalView w" by (rule returned_view)
  from assms(1) show ?thesis unfolding v
  proof
    assume "service w = Some (serviceValue Slack)"
    then show "''headers'' \<notin> set (keys (externalView w)) \<and> ''body'' \<notin> set (keys (externalView w))"
      by (rule keys_externalView_not_Generic) simp
  next
    assume "service w = Some (serviceValue IncidentIO)"
    then show "''headers'' \<notin> set (keys (externalView w)) \<and> ''body'' \<notin> set (keys (externalView w))"
      by (rule keys_externalView_not_Generic) simp
  qed
qed

theorem slack_incidentio_view_hides_headers_and_body_witness:
  "headers exampleSlack \<noteq> None \<and> body exampleSlack \<noteq> None
   \<and> formatExternalWebhook exampleSlack [] = (Inr exampleSlackView, [])
   \<and> exampleSlackView \<noteq> JSUndefined
   \<and> ''headers'' \<notin> set (keys exampleSlackView) \<and> ''body'' \<notin> set (keys exampleSlackView)"
proof -
  have h1: "service exampleSlack = Some (serviceValue Slack) \<or> service exampleSlack = Some (serviceValue IncidentIO)"
    by (simp add: exampleSlack_def)
  have h2: "formatExternalWebhook exampleSlack [] = (Inr exampleSlackView, [])"
    by code_simp
  have h3: "headers exampleSlack \<noteq> None \<and> body exampleSlack \<noteq> None \<and> exampleSlackView \<noteq> JSUndefined"
    by (simp add: exampleSlack_def exampleSlackView_def)
  from slack_incidentio_view_hides_headers_and_body [OF h1 h2] h2 h3 show ?thesis by simp
qed

text \<open>
C2. Every key of the value that \<open>formatExternalWebhook\<close> returns is declared by the
  variant of the schema that the service of the document selects, and is a field that
  the document has: a field that is not stored is omitted. The value under a key of
  the view is neither \<^verbatim>\<open>null\<close> nor \<^verbatim>\<open>undefined\<close>.
\<close>

theorem view_keys_whitelisted_and_stored:
  assumes "formatExternalWebhook w lg = (Inr v, lg')" and "k \<in> set (keys v)"
  shows "\<exists>s shape. service w = Some s \<and> variantOf s = Some shape
           \<and> k \<in> set (map fst shape) \<and> k \<in> set (stored_fields w)
           \<and> js_get v k \<noteq> JSNull \<and> js_get v k \<noteq> JSUndefined"
proof -
  from assms(2) have "v \<noteq> JSUndefined" by (rule keys_Undefined)
  with assms(1) obtain i n svc c u where f: "doc_id w = Some i" "name w = Some n"
    "service w = Some (serviceValue svc)" "createdAt w = Some c" "updatedAt w = Some u"
    and v: "v = JSObject (viewProps i n svc c u w)"
    by (rule view_cases)
  from assms(2) have kv: "k \<in> set (map fst (viewProps i n svc c u w))"
    by (simp add: v)
  then have k: "k \<in> set (map fst (externalWebhookShape svc))"
    unfolding keys_viewProps keys_shape by (elim disjE conjE; simp)
  from kv f have st: "k \<in> set (stored_fields w)"
    unfolding keys_viewProps keys_stored by (elim disjE conjE; simp)
  from kv have "js_get v k \<in> snd ` set (viewProps i n svc c u w)"
    unfolding v js_get.simps by (rule get_prop_in)
  with values_viewProps have val: "js_get v k \<noteq> JSNull \<and> js_get v k \<noteq> JSUndefined"
    by blast
  from f(3) variantOf_serviceValue k st val show ?thesis by blast
qed

theorem view_keys_whitelisted_and_stored_witness:
  "formatExternalWebhook exampleSlack [] = (Inr exampleSlackView, [])
   \<and> ''url'' \<in> set (keys exampleSlackView)
   \<and> (\<exists>s shape. service exampleSlack = Some s \<and> variantOf s = Some shape
           \<and> ''url'' \<in> set (map fst shape) \<and> ''url'' \<in> set (stored_fields exampleSlack)
           \<and> js_get exampleSlackView ''url'' \<noteq> JSNull
           \<and> js_get exampleSlackView ''url'' \<noteq> JSUndefined)"
proof -
  have h1: "formatExternalWebhook exampleSlack [] = (Inr exampleSlackView, [])"
    by code_simp
  have h2: "''url'' \<in> set (keys exampleSlackView)"
    by (simp add: exampleSlackView_def)
  from view_keys_whitelisted_and_stored [OF h1 h2] h1 h2 show ?thesis by blast
qed

text \<open>
  C3. For a Generic document that has \<^verbatim>\<open>_id\<close>, \<^verbatim>\<open>name\<close>, \<^verbatim>\<open>createdAt\<close>
  and \<^verbatim>\<open>updatedAt\<close>, \<open>formatExternalWebhook\<close> returns an external view, writes
  nothing to the logger, and the view has the key \<^verbatim>\<open>headers\<close> exactly when the
  document stores headers and the key \<^verbatim>\<open>body\<close> exactly when it stores a body; the
  values are the stored ones.
\<close>

theorem generic_record_has_view_preserving_headers_and_body:
  assumes "service w = Some (serviceValue Generic)" and "\<not> missing_required w"
  shows "\<exists>v. formatExternalWebhook w lg = (Inr v, lg) \<and> v \<noteq> JSUndefined
       \<and> (''headers'' \<in> set (keys v) \<longleftrightarrow> headers w \<noteq> None)
       \<and> (''body'' \<in> set (keys v) \<longleftrightarrow> body w \<noteq> None)
       \<and> (\<forall>m. headers w = Some m \<longrightarrow> js_get v ''headers'' = flattenMap m)
       \<and> (\<forall>b. body w = Some b \<longrightarrow> js_get v ''body'' = JSString b)"
proof -
  from assms have "valid w" by (rule valid_Generic)
  then obtain i n svc c u where f: "doc_id w = Some i" "name w = Some n"
    "service w = Some (serviceValue svc)" "createdAt w = Some c" "updatedAt w = Some u"
    by (rule valid_fields)
  from assms(1) f(3) have "serviceValue svc = serviceValue Generic" by simp
  then have svc: "svc = Generic" by (rule serviceValue_inj)
  let ?v = "JSObject (viewProps i n svc c u w)"
  have r: "formatExternalWebhook w lg = (Inr ?v, lg)"
    using f by (rule format_valid)
  have 0: "?v \<noteq> JSUndefined" by simp
  have 1: "''headers'' \<in> set (keys ?v) \<longleftrightarrow> headers w \<noteq> None"
    unfolding keys.simps keys_viewProps by (simp add: svc)
  have 2: "''body'' \<in> set (keys ?v) \<longleftrightarrow> body w \<noteq> None"
    unfolding keys.simps keys_viewProps by (simp add: svc)
  have 3: "\<forall>m. headers w = Some m \<longrightarrow> js_get ?v ''headers'' = flattenMap m"
    by (simp add: svc viewProps_headers)
  have 4: "\<forall>b. body w = Some b \<longrightarrow> js_get ?v ''body'' = JSString b"
    by (simp add: svc viewProps_body)
  from r 0 1 2 3 4 show ?thesis by blast
qed

theorem generic_record_has_view_preserving_headers_and_body_witness:
  "service exampleGeneric = Some (serviceValue Generic) \<and> \<not> missing_required exampleGeneric
   \<and> headers exampleGeneric = Some [(''X'', ''Y'')] \<and> body exampleGeneric = Some ''{{title}}''
   \<and> formatExternalWebhook exampleGeneric [] = (Inr exampleGenericView, [])
   \<and> exampleGenericView \<noteq> JSUndefined
   \<and> ''headers'' \<in> set (keys exampleGenericView) \<and> ''body'' \<in> set (keys exampleGenericView)
   \<and> js_get exampleGenericView ''headers'' = JSObject [(''X'', JSString ''Y'')]
   \<and> js_get exampleGenericView ''body'' = JSString ''{{title}}''"
proof -
  have h1: "service exampleGeneric = Some (serviceValue Generic)"
    by (simp add: exampleGeneric_def)
  have h2: "\<not> missing_required exampleGeneric"
    by (simp add: missing_required_def exampleGeneric_def)
  have st: "headers exampleGeneric = Some [(''X'', ''Y'')]" "body exampleGeneric = Some ''{{title}}''"
    by (simp_all add: exampleGeneric_def)
  have fm: "flattenMap [(''X'', ''Y'')] = JSObject [(''X'', JSString ''Y'')]"
    by (simp add: flattenMap_def)
  have e: "formatExternalWebhook exampleGeneric [] = (Inr exampleGenericView, [])"
    by code_simp
  from generic_record_has_view_preserving_headers_and_body [OF h1 h2, of "[]"]
  obtain v where v: "formatExternalWebhook exampleGeneric [] = (Inr v, [])" "v \<noteq> JSUndefined"
    "''headers'' \<in> set (keys v) \<longleftrightarrow> headers exampleGeneric \<noteq> None"
    "''body'' \<in> set (keys v) \<longleftrightarrow> body exampleGeneric \<noteq> None"
    "\<forall>m. headers exampleGeneric = Some m \<longrightarrow> js_get v ''headers'' = flattenMap m"
    "\<forall>b. body exampleGeneric = Some b \<longrightarrow> js_get v ''body'' = JSString b"
    by blast
  from v(1) e have eq: "v = exampleGenericView" by simp
  from v(2-6) st fm have
    "exampleGenericView \<noteq> JSUndefined"
    "''headers'' \<in> set (keys exampleGenericView)" "''body'' \<in> set (keys exampleGenericView)"
    "js_get exampleGenericView ''headers'' = JSObject [(''X'', JSString ''Y'')]"
    "js_get exampleGenericView ''body'' = JSString ''{{title}}''"
    unfolding eq by simp_all
  with h1 h2 st e show ?thesis by simp
qed

text \<open>
  Without the required fields the equivalence fails: a Generic document that stores
  headers and a body but no name gets \<^verbatim>\<open>undefined\<close>, which has neither key.
\<close>

theorem generic_view_headers_iff_stored_counterexample:
  "service exampleGenericNoName = Some (serviceValue Generic)
   \<and> headers exampleGenericNoName = Some [(''X'', ''Y'')]
   \<and> body exampleGenericNoName = Some ''{{title}}''
   \<and> fst (formatExternalWebhook exampleGenericNoName []) = Inr JSUndefined
   \<and> ''headers'' \<notin> set (keys JSUndefined)
   \<and> ''body'' \<notin> set (keys JSUndefined)
   \<and> \<not> (''headers'' \<in> set (keys JSUndefined) \<longleftrightarrow> headers exampleGenericNoName \<noteq> None)
   \<and> \<not> (''body'' \<in> set (keys JSUndefined) \<longleftrightarrow> body exampleGenericNoName \<noteq> None)"
proof -
  have e: "fst (formatExternalWebhook exampleGenericNoName []) = Inr JSUndefined"
    by code_simp
  have s: "service exampleGenericNoName = Some (serviceValue Generic)"
    "headers exampleGenericNoName = Some [(''X'', ''Y'')]"
    "body exampleGenericNoName = Some ''{{title}}''"
    by (simp_all add: exampleGenericNoName_def exampleGeneric_def)
  from e s show ?thesis by simp
qed

text \<open>
  C9. The \<^verbatim>\<open>id\<close> of an external view is the string rendering of the stored
  \<^verbatim>\<open>_id\<close>, not an ObjectId.
\<close>

theorem view_id_is_string_of_stored_id:
  assumes "formatExternalWebhook w lg = (Inr v, lg')" and "v \<noteq> JSUndefined"
  shows "\<exists>i. doc_id w = Some i \<and> js_get v ''id'' = JSString (toString i)
           \<and> js_get v ''id'' \<noteq> JSObjectId i"
proof -
  from assms obtain i n svc c u where f: "doc_id w = Some i"
    and v: "v = JSObject (viewProps i n svc c u w)"
    by (rule view_cases)
  have "js_get v ''id'' = JSString (toString i)"
    by (simp add: v viewProps_id)
  with f show ?thesis by simp
qed

theorem view_id_is_string_of_stored_id_witness:
  "doc_id exampleSlack = Some (ObjectId ''65a1'')
   \<and> formatExternalWebhook exampleSlack [] = (Inr exampleSlackView, [])
   \<and> js_get exampleSlackView ''id'' = JSString ''65a1''"
proof -
  have h1: "formatExternalWebhook exampleSlack [] = (Inr exampleSlackView, [])"
    by code_simp
  have h2: "exampleSlackView \<noteq> JSUndefined"
    by (simp add: exampleSlackView_def)
  have st: "doc_id exampleSlack = Some (ObjectId ''65a1'')"
    by (simp add: exampleSlack_def)
  from view_id_is_string_of_stored_id [OF h1 h2] st h1 show ?thesis
    by auto
qed

text \<open>
  C10. An external view holds only values of JSON, its \<^verbatim>\<open>createdAt\<close> and
  \<^verbatim>\<open>updatedAt\<close> are the ISO strings of the stored dates, and
  \<^verbatim>\<open>JSON.parse(JSON.stringify(view))\<close> is the view.
\<close>

theorem view_is_plain_json_fixed_point:
  assumes "formatExternalWebhook w lg = (Inr v, lg')" and "v \<noteq> JSUndefined"
  shows "plain v \<and> JSON_parse (JSON_stringify v) = Inr v
       \<and> (\<exists>c. createdAt w = Some c \<and> js_get v ''createdAt'' = JSString (toISOString c))
       \<and> (\<exists>u. updatedAt w = Some u \<and> js_get v ''updatedAt'' = JSString (toISOString u))"
proof -
  from assms obtain i n svc c u where f: "createdAt w = Some c" "updatedAt w = Some u"
    and v: "v = JSObject (viewProps i n svc c u w)"
    by (rule view_cases)
  have p: "plain v" unfolding v by (rule plain_viewProps)
  then have r: "JSON_parse (JSON_stringify v) = Inr v" by (rule parse_stringify_plain)
  have "js_get v ''createdAt'' = JSString (toISOString c)"
    and "js_get v ''updatedAt'' = JSString (toISOString u)"
    by (simp_all add: v viewProps_createdAt viewProps_updatedAt)
  with f p r show ?thesis by simp
qed

theorem view_is_plain_json_fixed_point_witness:
  "createdAt exampleSlack = Some (Date ''2024-01-01T00:00:00.000Z'')
   \<and> formatExternalWebhook exampleSlack [] = (Inr exampleSlackView, [])
   \<and> plain exampleSlackView
   \<and> JSON_parse (JSON_stringify exampleSlackView) = Inr exampleSlackView
   \<and> js_get exampleSlackView ''createdAt'' = JSString ''2024-01-01T00:00:00.000Z''
   \<and> js_get exampleSlackView ''updatedAt'' = JSString ''2024-01-02T00:00:00.000Z''"
proof -
  have h1: "formatExternalWebhook exampleSlack [] = (Inr exampleSlackView, [])"
    by code_simp
  have h2: "exampleSlackView \<noteq> JSUndefined"
    by (simp add: exampleSlackView_def)
  have st: "createdAt exampleSlack = Some (Date ''2024-01-01T00:00:00.000Z'')"
    "updatedAt exampleSlack = Some (Date ''2024-01-02T00:00:00.000Z'')"
    by (simp_all add: exampleSlack_def)
  from view_is_plain_json_fixed_point [OF h1 h2] st h1 show ?thesis
    by auto
qed

text \<open>
  C4. For a document that misses \<^verbatim>\<open>id\<close>, \<^verbatim>\<open>name\<close>, \<^verbatim>\<open>service\<close>,
  \<^verbatim>\<open>createdAt\<close> or \<^verbatim>\<open>updatedAt\<close>, or whose service is not recognized,
  \<open>formatExternalWebhook\<close> returns \<^verbatim>\<open>undefined\<close> and throws nothing; the list
  response holds the views of the other retrieved documents only, so its length is
  that of the retrieved list less the number of such documents.
\<close>

theorem invalid_record_is_undefined_and_dropped:
  "(missing_required w \<or> unrecognized_service w \<longrightarrow>
      (\<exists>err. formatExternalWebhook w lg =
         (Inr JSUndefined,
          lg @ [LogError w err ''Failed to parse webhook using externalWebhookSchema:''])))
   \<and> (user req = Some usr \<and> user_team usr = Some tid
        \<and> Webhook_find (toString tid) s = (Inr ws, s') \<longrightarrow>
      (\<exists>ds. fst (listWebhooks req s) = Responded (Json (JSObject [(''data'', JSArray ds)]))
         \<and> ds = map externalView
                  (filter (\<lambda>w. \<not> (missing_required w \<or> unrecognized_service w)) ws)
         \<and> JSUndefined \<notin> set ds
         \<and> length ds + length (filter (\<lambda>w. missing_required w \<or> unrecognized_service w) ws)
             = length ws))"
proof (intro conjI impI)
  assume "missing_required w \<or> unrecognized_service w"
  then have "\<not> valid w" by (simp add: valid_iff)
  then show "\<exists>err. formatExternalWebhook w lg =
         (Inr JSUndefined,
          lg @ [LogError w err ''Failed to parse webhook using externalWebhookSchema:''])"
    by (rule format_invalid)
next
  assume a: "user req = Some usr \<and> user_team usr = Some tid
        \<and> Webhook_find (toString tid) s = (Inr ws, s')"
  let ?ds = "map externalView (filter valid ws)"
  from a have "fst (listWebhooks req s) = Responded (Json (JSObject [(''data'', JSArray ?ds)]))"
    by (simp add: listWebhooks_data filter_defined_views)
  moreover have "JSUndefined \<notin> set ?ds"
    using externalView_undefined_iff by fastforce
  moreover have "length ?ds + length (filter (\<lambda>w. \<not> valid w) ws) = length ws"
    by (rule defined_views_length)
  ultimately show "\<exists>ds. fst (listWebhooks req s) = Responded (Json (JSObject [(''data'', JSArray ds)]))
         \<and> ds = map externalView
                  (filter (\<lambda>w. \<not> (missing_required w \<or> unrecognized_service w)) ws)
         \<and> JSUndefined \<notin> set ds
         \<and> length ds + length (filter (\<lambda>w. missing_required w \<or> unrecognized_service w) ws)
             = length ws"
    unfolding valid_fun by simp
qed

lemma exampleWorld_find:
  "Webhook_find (toString (ObjectId ''aa'')) exampleWorld =
     (Inr [exampleSlack, exampleNoName, exampleUnknownService, exampleGeneric],
      exampleWorld\<lparr>queries := [''aa'']\<rparr>)"
  by code_simp

theorem invalid_record_is_undefined_and_dropped_witness:
  "missing_required exampleNoName
   \<and> unrecognized_service exampleUnknownService
   \<and> fst (formatExternalWebhook exampleNoName []) = Inr JSUndefined
   \<and> fst (formatExternalWebhook exampleUnknownService []) = Inr JSUndefined
   \<and> fst (listWebhooks exampleRequest exampleWorld)
       = Responded (Json (JSObject [(''data'', JSArray [exampleSlackView, exampleGenericView])]))
   \<and> (\<exists>ds. fst (listWebhooks exampleRequest exampleWorld)
           = Responded (Json (JSObject [(''data'', JSArray ds)]))
         \<and> length ds
             + length (filter (\<lambda>w. missing_required w \<or> unrecognized_service w)
                 [exampleSlack, exampleNoName, exampleUnknownService, exampleGeneric])
             = length [exampleSlack, exampleNoName, exampleUnknownService, exampleGeneric])"
proof -
  have m1: "missing_required exampleNoName"
    by (simp add: missing_required_def exampleNoName_def)
  have m2: "unrecognized_service exampleUnknownService"
    by (simp add: unrecognized_service_def exampleUnknownService_def recognized_def)
  have h: "user exampleRequest = Some exampleUser \<and> user_team exampleUser = Some (ObjectId ''aa'')
        \<and> Webhook_find (toString (ObjectId ''aa'')) exampleWorld =
            (Inr [exampleSlack, exampleNoName, exampleUnknownService, exampleGeneric],
             exampleWorld\<lparr>queries := [''aa'']\<rparr>)"
    using exampleWorld_find by (simp add: exampleRequest_def exampleUser_def)
  have e: "fst (listWebhooks exampleRequest exampleWorld)
       = Responded (Json (JSObject [(''data'', JSArray [exampleSlackView, exampleGenericView])]))"
    by code_simp
  note t1 = invalid_record_is_undefined_and_dropped
    [of exampleNoName "[]" exampleRequest exampleUser "ObjectId ''aa''" exampleWorld
      "[exampleSlack, exampleNoName, exampleUnknownService, exampleGeneric]"
      "exampleWorld\<lparr>queries := [''aa'']\<rparr>"]
  note t2 = invalid_record_is_undefined_and_dropped
    [of exampleUnknownService "[]" exampleRequest exampleUser "ObjectId ''aa''" exampleWorld
      "[exampleSlack, exampleNoName, exampleUnknownService, exampleGeneric]"
      "exampleWorld\<lparr>queries := [''aa'']\<rparr>"]
  from t1 m1 have f1: "fst (formatExternalWebhook exampleNoName []) = Inr JSUndefined"
    by auto
  from t2 m2 have f2: "fst (formatExternalWebhook exampleUnknownService []) = Inr JSUndefined"
    by auto
  from t1 h have "\<exists>ds. fst (listWebhooks exampleRequest exampleWorld)
           = Responded (Json (JSObject [(''data'', JSArray ds)]))
         \<and> length ds
             + length (filter (\<lambda>w. missing_required w \<or> unrecognized_service w)
                 [exampleSlack, exampleNoName, exampleUnknownService, exampleGeneric])
             = length [exampleSlack, exampleNoName, exampleUnknownService, exampleGeneric]"
    by blast
  with m1 m2 f1 f2 e show ?thesis by blast
qed

text \<open>
  C5. For every list of retrieved documents, mapping \<open>formatExternalWebhook\<close> over
  it throws nothing and yields the values of the documents in retrieval order; the
  \<^verbatim>\<open>data\<close> array of the response is that list without its \<^verbatim>\<open>undefined\<close>
  entries, which are the views of the documents that have one, in the same order.
\<close>

theorem list_data_is_filtered_map_in_order:
  "fst (formatExternalWebhook w lg) = Inr (externalView w)
   \<and> fst (array_map formatExternalWebhook ws lg) = Inr (map externalView ws)
   \<and> (user req = Some usr \<and> user_team usr = Some tid
        \<and> Webhook_find (toString tid) s = (Inr ws, s') \<longrightarrow>
      fst (listWebhooks req s) =
        Responded (Json (JSObject
          [(''data'', JSArray (filter (\<lambda>v. v \<noteq> JSUndefined) (map externalView ws)))])))
   \<and> filter (\<lambda>v. v \<noteq> JSUndefined) (map externalView ws)
       = map externalView (filter (\<lambda>w. externalView w \<noteq> JSUndefined) ws)"
proof (intro conjI impI)
  show "fst (formatExternalWebhook w lg) = Inr (externalView w)"
    by (rule format_fst)
  show "fst (array_map formatExternalWebhook ws lg) = Inr (map externalView ws)"
    by (rule array_map_format)
  show "filter (\<lambda>v. v \<noteq> JSUndefined) (map externalView ws)
       = map externalView (filter (\<lambda>w. externalView w \<noteq> JSUndefined) ws)"
    by (simp add: filter_map comp_def)
next
  assume "user req = Some usr \<and> user_team usr = Some tid
        \<and> Webhook_find (toString tid) s = (Inr ws, s')"
  then show "fst (listWebhooks req s) =
        Responded (Json (JSObject
          [(''data'', JSArray (filter (\<lambda>v. v \<noteq> JSUndefined) (map externalView ws)))]))"
    by (simp add: listWebhooks_data)
qed

theorem list_data_is_filtered_map_in_order_witness:
  "user exampleRequest = Some exampleUser \<and> user_team exampleUser = Some (ObjectId ''aa'')
   \<and> Webhook_find (toString (ObjectId ''aa'')) exampleWorld =
        (Inr [exampleSlack, exampleNoName, exampleUnknownService, exampleGeneric],
         exampleWorld\<lparr>queries := [''aa'']\<rparr>)
   \<and> map externalView [exampleSlack, exampleNoName, exampleUnknownService, exampleGeneric]
       = [exampleSlackView, JSUndefined, JSUndefined, exampleGenericView]
   \<and> fst (listWebhooks exampleRequest exampleWorld) =
        Responded (Json (JSObject [(''data'', JSArray [exampleSlackView, exampleGenericView])]))"
proof -
  have h: "user exampleRequest = Some exampleUser \<and> user_team exampleUser = Some (ObjectId ''aa'')
        \<and> Webhook_find (toString (ObjectId ''aa'')) exampleWorld =
            (Inr [exampleSlack, exampleNoName, exampleUnknownService, exampleGeneric],
             exampleWorld\<lparr>queries := [''aa'']\<rparr>)"
    using exampleWorld_find by (simp add: exampleRequest_def exampleUser_def)
  have v: "map externalView [exampleSlack, exampleNoName, exampleUnknownService, exampleGeneric]
       = [exampleSlackView, JSUndefined, JSUndefined, exampleGenericView]"
    by code_simp
  note t = list_data_is_filtered_map_in_order
    [of exampleSlack "[]" "[exampleSlack, exampleNoName, exampleUnknownService, exampleGeneric]"
      exampleRequest exampleUser "ObjectId ''aa''" exampleWorld
      "exampleWorld\<lparr>queries := [''aa'']\<rparr>"]
  from t h have "fst (listWebhooks exampleRequest exampleWorld) =
        Responded (Json (JSObject
          [(''data'', JSArray (filter (\<lambda>v. v \<noteq> JSUndefined)
             (map externalView [exampleSlack, exampleNoName, exampleUnknownService, exampleGeneric])))]))"
    by blast
  then have "fst (listWebhooks exampleRequest exampleWorld) =
        Responded (Json (JSObject [(''data'', JSArray [exampleSlackView, exampleGenericView])]))"
    unfolding v by (simp add: exampleSlackView_def exampleGenericView_def)
  with h v show ?thesis by blast
qed

text \<open>
  C6. For a caller of team \<open>A\<close>, the query returns exactly the documents of the
  collection whose team is \<open>A\<close>; every entry of a list response is the view of such
  a document, and the id of a document of another team, when no document of team
  \<open>A\<close> shares it, is the id of no entry.
\<close>

theorem listing_is_team_scoped:
  assumes "user req = Some usr" and "user_team usr = Some A"
  shows "fst (Webhook_find (toString A) s) =
           (if storage_up s then Inr (filter (\<lambda>w. team w = Some A) (collection s))
            else Inl StorageError)
       \<and> (\<forall>body. fst (listWebhooks req s) = Responded (Json body) \<longrightarrow>
            (\<exists>ds. body = JSObject [(''data'', JSArray ds)]
               \<and> (\<forall>d \<in> set ds. \<exists>w \<in> set (collection s). team w = Some A \<and> d = externalView w)
               \<and> (\<forall>w B i. w \<in> set (collection s) \<and> team w = Some B \<and> B \<noteq> A
                     \<and> doc_id w = Some i
                     \<and> (\<forall>w' \<in> set (collection s). team w' = Some A \<longrightarrow> doc_id w' \<noteq> Some i)
                     \<longrightarrow> (\<forall>d \<in> set ds. js_get d ''id'' \<noteq> JSString (toString i)))))"
proof (intro conjI allI impI)
  show "fst (Webhook_find (toString A) s) =
           (if storage_up s then Inr (filter (\<lambda>w. team w = Some A) (collection s))
            else Inl StorageError)"
    by (rule Webhook_find_result)
next
  fix body
  assume r: "fst (listWebhooks req s) = Responded (Json body)"
  let ?ws = "filter (\<lambda>w. team w = Some A) (collection s)"
  let ?ds = "map externalView (filter valid ?ws)"
  have up: "storage_up s"
  proof (rule ccontr)
    assume "\<not> storage_up s"
    with assms have "fst (listWebhooks req s) = Next StorageError"
      by (simp add: listWebhooks_def Webhook_find_def Let_def)
    with r show False by simp
  qed
  then obtain s' where "Webhook_find (toString A) s = (Inr ?ws, s')"
    using Webhook_find_result [of A s] by (cases "Webhook_find (toString A) s") simp
  with assms have "fst (listWebhooks req s) = Responded (Json (JSObject [(''data'', JSArray ?ds)]))"
    by (simp add: listWebhooks_data filter_defined_views)
  with r have body: "body = JSObject [(''data'', JSArray ?ds)]" by simp
  have own: "\<forall>d \<in> set ?ds. \<exists>w \<in> set (collection s). team w = Some A \<and> d = externalView w"
    by auto
  have other: "\<forall>w B i. w \<in> set (collection s) \<and> team w = Some B \<and> B \<noteq> A
                     \<and> doc_id w = Some i
                     \<and> (\<forall>w' \<in> set (collection s). team w' = Some A \<longrightarrow> doc_id w' \<noteq> Some i)
                     \<longrightarrow> (\<forall>d \<in> set ?ds. js_get d ''id'' \<noteq> JSString (toString i))"
  proof (intro allI impI ballI)
    fix w B i d
    assume a: "w \<in> set (collection s) \<and> team w = Some B \<and> B \<noteq> A
                     \<and> doc_id w = Some i
                     \<and> (\<forall>w' \<in> set (collection s). team w' = Some A \<longrightarrow> doc_id w' \<noteq> Some i)"
      and d: "d \<in> set ?ds"
    from d obtain w' where w': "w' \<in> set (collection s)" "team w' = Some A" "valid w'"
      "d = externalView w'" by auto
    from externalView_id [OF w'(3)] obtain j where j: "doc_id w' = Some j"
      "js_get (externalView w') ''id'' = JSString (toString j)" by blast
    from a w'(1,2) j(1) have "j \<noteq> i" by auto
    then have "toString j \<noteq> toString i" using toString_inj by blast
    with j(2) w'(4) show "js_get d ''id'' \<noteq> JSString (toString i)" by simp
  qed
  from body own other
  show "\<exists>ds. body = JSObject [(''data'', JSArray ds)]
               \<and> (\<forall>d \<in> set ds. \<exists>w \<in> set (collection s). team w = Some A \<and> d = externalView w)
               \<and> (\<forall>w B i. w \<in> set (collection s) \<and> team w = Some B \<and> B \<noteq> A
                     \<and> doc_id w = Some i
                     \<and> (\<forall>w' \<in> set (collection s). team w' = Some A \<longrightarrow> doc_id w' \<noteq> Some i)
                     \<longrightarrow> (\<forall>d \<in> set ds. js_get d ''id'' \<noteq> JSString (toString i)))"
    by blast
qed

theorem listing_is_team_scoped_witness:
  "user exampleRequest = Some exampleUser \<and> user_team exampleUser = Some (ObjectId ''aa'')
   \<and> exampleOtherTeam \<in> set (collection exampleWorld)
   \<and> team exampleOtherTeam = Some (ObjectId ''bb'')
   \<and> doc_id exampleOtherTeam = Some (ObjectId ''65a5'')
   \<and> fst (Webhook_find (toString (ObjectId ''aa'')) exampleWorld)
       = Inr (filter (\<lambda>w. team w = Some (ObjectId ''aa'')) (collection exampleWorld))
   \<and> fst (listWebhooks exampleRequest exampleWorld) =
        Responded (Json (JSObject [(''data'', JSArray [exampleSlackView, exampleGenericView])]))
   \<and> js_get exampleSlackView ''id'' \<noteq> JSString (toString (ObjectId ''65a5''))
   \<and> js_get exampleGenericView ''id'' \<noteq> JSString (toString (ObjectId ''65a5''))"
proof -
  have h1: "user exampleRequest = Some exampleUser"
    by (simp add: exampleRequest_def)
  have h2: "user_team exampleUser = Some (ObjectId ''aa'')"
    by (simp add: exampleUser_def)
  have up: "storage_up exampleWorld"
    by (simp add: exampleWorld_def)
  have e: "fst (listWebhooks exampleRequest exampleWorld) =
        Responded (Json (JSObject [(''data'', JSArray [exampleSlackView, exampleGenericView])]))"
    by code_simp
  have o: "exampleOtherTeam \<in> set (collection exampleWorld)
      \<and> team exampleOtherTeam = Some (ObjectId ''bb'') \<and> ObjectId ''bb'' \<noteq> ObjectId ''aa''
      \<and> doc_id exampleOtherTeam = Some (ObjectId ''65a5'')"
    by (simp add: exampleWorld_def exampleOtherTeam_def exampleSlack_def)
  have u: "\<forall>w' \<in> set (collection exampleWorld).
      team w' = Some (ObjectId ''aa'') \<longrightarrow> doc_id w' \<noteq> Some (ObjectId ''65a5'')"
    by (simp add: exampleWorld_def exampleOtherTeam_def exampleSlack_def exampleNoName_def
        exampleUnknownService_def exampleGeneric_def)
  note t = listing_is_team_scoped [OF h1 h2, of exampleWorld]
  from t up have f: "fst (Webhook_find (toString (ObjectId ''aa'')) exampleWorld)
       = Inr (filter (\<lambda>w. team w = Some (ObjectId ''aa'')) (collection exampleWorld))"
    by simp
  from t e obtain ds where ds:
    "JSObject [(''data'', JSArray [exampleSlackView, exampleGenericView])]
       = JSObject [(''data'', JSArray ds)]"
    "\<forall>w B i. w \<in> set (collection exampleWorld) \<and> team w = Some B \<and> B \<noteq> ObjectId ''aa''
        \<and> doc_id w = Some i
        \<and> (\<forall>w' \<in> set (collection exampleWorld).
              team w' = Some (ObjectId ''aa'') \<longrightarrow> doc_id w' \<noteq> Some i)
        \<longrightarrow> (\<forall>d \<in> set ds. js_get d ''id'' \<noteq> JSString (toString i))"
    by blast
  from ds(1) have eq: "ds = [exampleSlackView, exampleGenericView]" by simp
  from ds(2) o u have "\<forall>d \<in> set ds. js_get d ''id'' \<noteq> JSString (toString (ObjectId ''65a5''))"
    by blast
  with eq have "js_get exampleSlackView ''id'' \<noteq> JSString (toString (ObjectId ''65a5''))"
    and "js_get exampleGenericView ''id'' \<noteq> JSString (toString (ObjectId ''65a5''))"
    by simp_all
  with h1 h2 o f e show ?thesis by blast
qed

text \<open>
  C8. A request without a user, or whose user has no team, is answered with status
  403 and leaves the state as it was: no query is issued. A request of a team without
  documents, the storage answering, is answered 200 with \<^verbatim>\<open>{"data": []}\<close>.
\<close>

theorem no_team_is_forbidden_and_empty_team_lists_nothing:
  "((user req = None \<or> (\<exists>usr. user req = Some usr \<and> user_team usr = None)) \<longrightarrow>
      listWebhooks req s = (Responded (SendStatus 403), s)
      \<and> status (SendStatus 403) = 403
      \<and> queries (snd (listWebhooks req s)) = queries s)
   \<and> (user req = Some usr \<and> user_team usr = Some A \<and> storage_up s
        \<and> (\<forall>w \<in> set (collection s). team w \<noteq> Some A) \<longrightarrow>
      fst (listWebhooks req s) = Responded (Json (JSObject [(''data'', JSArray [])]))
      \<and> status (Json (JSObject [(''data'', JSArray [])])) = 200)"
proof (intro conjI impI)
  assume a: "user req = None \<or> (\<exists>usr. user req = Some usr \<and> user_team usr = None)"
  then show l: "listWebhooks req s = (Responded (SendStatus 403), s)"
    by (rule listWebhooks_no_team)
  then show "queries (snd (listWebhooks req s)) = queries s" by simp
  show "status (SendStatus 403) = 403" by simp
next
  assume a: "user req = Some usr \<and> user_team usr = Some A \<and> storage_up s
        \<and> (\<forall>w \<in> set (collection s). team w \<noteq> Some A)"
  then have "filter (\<lambda>w. team w = Some A) (collection s) = []"
    by (simp add: filter_empty_conv)
  with a obtain s' where "Webhook_find (toString A) s = (Inr [], s')"
    using Webhook_find_result [of A s] by (cases "Webhook_find (toString A) s") simp
  with a show "fst (listWebhooks req s) = Responded (Json (JSObject [(''data'', JSArray [])]))"
    using listWebhooks_data [of req usr A s "[]" s'] by simp
  show "status (Json (JSObject [(''data'', JSArray [])])) = 200" by simp
qed

theorem no_team_is_forbidden_and_empty_team_lists_nothing_witness:
  "listWebhooks \<lparr>user = None\<rparr> exampleWorld = (Responded (SendStatus 403), exampleWorld)
   \<and> listWebhooks \<lparr>user = Some \<lparr>user_team = None\<rparr>\<rparr> exampleWorld
       = (Responded (SendStatus 403), exampleWorld)
   \<and> queries (snd (listWebhooks \<lparr>user = None\<rparr> exampleWorld)) = []
   \<and> storage_up exampleWorld
   \<and> filter (\<lambda>w. team w = Some (ObjectId ''cc'')) (collection exampleWorld) = []
   \<and> fst (listWebhooks \<lparr>user = Some \<lparr>user_team = Some (ObjectId ''cc'')\<rparr>\<rparr> exampleWorld)
       = Responded (Json (JSObject [(''data'', JSArray [])]))"
proof -
  note t1 = no_team_is_forbidden_and_empty_team_lists_nothing
    [of "\<lparr>user = None\<rparr>" exampleWorld "\<lparr>user_team = Some (ObjectId ''cc'')\<rparr>" "ObjectId ''cc''"]
  note t2 = no_team_is_forbidden_and_empty_team_lists_nothing
    [of "\<lparr>user = Some \<lparr>user_team = None\<rparr>\<rparr>" exampleWorld
      "\<lparr>user_team = Some (ObjectId ''cc'')\<rparr>" "ObjectId ''cc''"]
  note t3 = no_team_is_forbidden_and_empty_team_lists_nothing
    [of "\<lparr>user = Some \<lparr>user_team = Some (ObjectId ''cc'')\<rparr>\<rparr>" exampleWorld
      "\<lparr>user_team = Some (ObjectId ''cc'')\<rparr>" "ObjectId ''cc''"]
  have q: "queries exampleWorld = []" and up: "storage_up exampleWorld"
    by (simp_all add: exampleWorld_def)
  have none: "\<forall>w \<in> set (collection exampleWorld). team w \<noteq> Some (ObjectId ''cc'')"
    by (simp add: exampleWorld_def exampleOtherTeam_def exampleSlack_def exampleNoName_def
        exampleUnknownService_def exampleGeneric_def)
  from t1 have 1: "listWebhooks \<lparr>user = None\<rparr> exampleWorld = (Responded (SendStatus 403), exampleWorld)"
    and 3: "queries (snd (listWebhooks \<lparr>user = None\<rparr> exampleWorld)) = queries exampleWorld"
    by simp_all
  from t2 have 2: "listWebhooks \<lparr>user = Some \<lparr>user_team = None\<rparr>\<rparr> exampleWorld
       = (Responded (SendStatus 403), exampleWorld)"
    by simp
  from t3 up none
  have 4: "fst (listWebhooks \<lparr>user = Some \<lparr>user_team = Some (ObjectId ''cc'')\<rparr>\<rparr> exampleWorld)
       = Responded (Json (JSObject [(''data'', JSArray [])]))"
    by simp
  from none have e: "filter (\<lambda>w. team w = Some (ObjectId ''cc'')) (collection exampleWorld) = []"
    by (simp add: filter_empty_conv)
  from 1 2 3 4 q up e show ?thesis by simp
qed

end
